theory Spec2Isabelle
  imports Complex_Main "HOL-Library.Sublist"
begin

section \<open>Cartoon Avatar Creator: the client-side state machine\<close>

text \<open>
  A shallow embedding of \<^verbatim>\<open>src/types.ts\<close>, \<^verbatim>\<open>src/App.tsx\<close> and
  \<^verbatim>\<open>src/services/geminiService.ts\<close>.

  Conventions of the embedding.
  \<^item> A JavaScript string is a \<open>string\<close> (a list of bytes). The two user-facing messages and the
    progress messages of the source are Chinese text; they are given by their UTF-8 bytes. No
    property below depends on more than their being non-empty.
  \<^item> A value of type \<^verbatim>\<open>string | null\<close> (or an optional property) is a \<open>string option\<close>;
    JavaScript truthiness of such a value is the predicate \<open>truthy\<close>: \<^verbatim>\<open>null\<close>,
    \<^verbatim>\<open>undefined\<close> and the empty string are falsy.
  \<^item> \<^verbatim>\<open>Date.now()\<close> is an \<open>int\<close> (milliseconds), supplied by the environment at
    every place the source reads it.
  \<^item> \<^verbatim>\<open>progressPercent\<close> is a \<open>rat\<close>: the source computes it in double precision
    from integer milliseconds; rounding is monotone, so the order and the clamp are those of
    the exact quotient.
  \<^item> The value of \<^verbatim>\<open>Math.random()\<close> is a double, given as the \<open>rat\<close> it denotes, and
    the product the source takes the floor of is rounded to double precision
    (\<open>round_double\<close>), since the floor makes the rounding visible.
  \<^item> A React state update \<^verbatim>\<open>setState(prev => ...)\<close> is a function from the previous
    state to the next one. A handler closes over the state of the render that created it
    (the variable \<^verbatim>\<open>state\<close> of the source); that snapshot is an explicit argument
    named \<open>state\<close>, while the argument of an updater is named \<open>prev\<close>.
\<close>

subsection \<open>Strings\<close>

definition truthy :: "string option \<Rightarrow> bool" where
  "truthy v = (case v of None \<Rightarrow> False | Some s \<Rightarrow> s \<noteq> [])"

text \<open>\<^verbatim>\<open>a || b\<close> on an optional string and a string.\<close>

definition or_else :: "string option \<Rightarrow> string \<Rightarrow> string" where
  "or_else v d = (case v of None \<Rightarrow> d | Some s \<Rightarrow> if s = [] then d else s)"

text \<open>\<^verbatim>\<open>s.startsWith(p)\<close>.\<close>

definition startsWith :: "string \<Rightarrow> string \<Rightarrow> bool" where
  "startsWith s p = (take (length p) s = p)"

text \<open>\<^verbatim>\<open>s.split(c)\<close> for a one-character separator: the pieces between the separators,
  always at least one piece.\<close>

fun split_acc :: "char \<Rightarrow> string \<Rightarrow> string \<Rightarrow> string list" where
  "split_acc c acc [] = [rev acc]"
| "split_acc c acc (x # xs) =
     (if x = c then rev acc # split_acc c [] xs else split_acc c (x # acc) xs)"

definition split :: "string \<Rightarrow> char \<Rightarrow> string list" where
  "split s c = split_acc c [] s"

text \<open>\<^verbatim>\<open>xs[i]\<close>: \<^verbatim>\<open>undefined\<close> out of range.\<close>

fun at_index :: "'a list \<Rightarrow> nat \<Rightarrow> 'a option" where
  "at_index [] i = None"
| "at_index (x # xs) 0 = Some x"
| "at_index (x # xs) (Suc i) = at_index xs i"

text \<open>\<^verbatim>\<open>n.toString()\<close> for an integer.\<close>

definition digit_char :: "nat \<Rightarrow> char" where
  "digit_char d = ''0123456789'' ! d"

fun digits_of :: "nat \<Rightarrow> string" where
  "digits_of n = (if n < 10 then [digit_char n] else digits_of (n div 10) @ [digit_char (n mod 10)])"

declare digits_of.simps [simp del]

definition toString :: "int \<Rightarrow> string" where
  "toString n = (if n < 0 then CHR ''-'' # digits_of (nat (- n)) else digits_of (nat n))"

subsection \<open>Double-precision numbers\<close>

text \<open>
  IEEE 754 binary64 with round-to-nearest, ties-to-even, for the non-negative values below
  the overflow threshold; a double is given as the rational number it denotes.
  \<open>round_half_even\<close> rounds to the nearest integer, a tie going to the even one.
\<close>

definition round_half_even :: "rat \<Rightarrow> int" where
  "round_half_even q =
     (let f = \<lfloor>q\<rfloor>; d = q - of_int f
      in if d < 1 / 2 then f else if 1 / 2 < d then f + 1 else if even f then f else f + 1)"

text \<open>
  The binary exponent of a positive \<open>x\<close>: for \<open>1 \<le> x\<close> the number of halvings that bring
  \<open>x\<close> below 2 (at most 1023 for a finite double), for \<open>x < 1\<close> the number of doublings
  that bring it to 1 or above, at most 1022: smaller values are subnormal and share the
  exponent \<open>-1022\<close>.
\<close>

fun halvings :: "nat \<Rightarrow> rat \<Rightarrow> nat" where
  "halvings n x = (if n = 0 \<or> x < 2 then 0 else Suc (halvings (n - 1) (x / 2)))"

fun doublings :: "nat \<Rightarrow> rat \<Rightarrow> nat" where
  "doublings n x = (if n = 0 \<or> 1 \<le> x then 0 else Suc (doublings (n - 1) (2 * x)))"

declare halvings.simps [simp del]

declare doublings.simps [simp del]

text \<open>The distance between neighbouring doubles around \<open>x\<close>: 2 to the exponent of \<open>x\<close>,
  divided by \<open>2 ^ 52\<close>.\<close>

definition ulp :: "rat \<Rightarrow> rat" where
  "ulp x =
     (if 1 \<le> x then 2 ^ halvings 1023 x / 2 ^ 52
      else 1 / (2 ^ doublings 1022 x * 2 ^ 52))"

definition round_double :: "rat \<Rightarrow> rat" where
  "round_double x = (if x \<le> 0 then 0 else ulp x * of_int (round_half_even (x / ulp x)))"


subsection \<open>types.ts\<close>

datatype AvatarStyle = PIXAR | VECTOR | ANIME | SKETCH | COMIC | CYBERPUNK | GOTHIC | CLAY

text \<open>The string value of each member (UTF-8 bytes where the text is Chinese).\<close>

fun AvatarStyle_text :: "AvatarStyle \<Rightarrow> string" where
  "AvatarStyle_text PIXAR =
     ''Pixar '' @ [CHR 0xE9, CHR 0xA3, CHR 0x8E, CHR 0xE6, CHR 0xA0, CHR 0xBC]"
| "AvatarStyle_text VECTOR =
     ''2D '' @ [CHR 0xE7, CHR 0x9F, CHR 0xA2, CHR 0xE9, CHR 0x87, CHR 0x8F, CHR 0xE7, CHR 0x9F,
               CHR 0xA2, CHR 0xE9, CHR 0x87, CHR 0x8F, CHR 0xE9, CHR 0xA3, CHR 0x8E]"
| "AvatarStyle_text ANIME =
     [CHR 0xE4, CHR 0xBA, CHR 0x8C, CHR 0xE6, CHR 0xAC, CHR 0xA1, CHR 0xE5, CHR 0x85,
      CHR 0x83, CHR 0xE5, CHR 0x8A, CHR 0xA8, CHR 0xE6, CHR 0xBC, CHR 0xAB]"
| "AvatarStyle_text SKETCH =
     [CHR 0xE6, CHR 0x89, CHR 0x8B, CHR 0xE7, CHR 0xBB, CHR 0x98, CHR 0xE7, CHR 0xB4,
      CHR 0xA0, CHR 0xE6, CHR 0x8F, CHR 0x8F]"
| "AvatarStyle_text COMIC =
     [CHR 0xE7, CHR 0xBE, CHR 0x8E, CHR 0xE6, CHR 0xBC, CHR 0xAB, CHR 0xE9, CHR 0xA3,
      CHR 0x8E, CHR 0xE6, CHR 0xA0, CHR 0xBC]"
| "AvatarStyle_text CYBERPUNK =
     [CHR 0xE8, CHR 0xB5, CHR 0x9B, CHR 0xE5, CHR 0x8D, CHR 0x9A, CHR 0xE6, CHR 0x9C,
      CHR 0x8B, CHR 0xE5, CHR 0x85, CHR 0x8B, CHR 0xE9, CHR 0xA3, CHR 0x8E]"
| "AvatarStyle_text GOTHIC =
     [CHR 0xE5, CHR 0x93, CHR 0xA5, CHR 0xE7, CHR 0x89, CHR 0xB9, CHR 0xE5, CHR 0xB9,
      CHR 0xBB, CHR 0xE6, CHR 0x83, CHR 0xB3, CHR 0xE9, CHR 0xA3, CHR 0x8E]"
| "AvatarStyle_text CLAY =
     [CHR 0xE7, CHR 0xB2, CHR 0x98, CHR 0xE5, CHR 0x9C, CHR 0x9F, CHR 0xE5, CHR 0xAE,
      CHR 0x9A, CHR 0xE6, CHR 0xA0, CHR 0xBC, CHR 0xE5, CHR 0x8A, CHR 0xA8, CHR 0xE7,
      CHR 0x94, CHR 0xBB]"

text \<open>\<^verbatim>\<open>Object.values(AvatarStyle)\<close>: the members in declaration order.\<close>

definition AvatarStyle_values :: "AvatarStyle list" where
  "AvatarStyle_values = [PIXAR, VECTOR, ANIME, SKETCH, COMIC, CYBERPUNK, GOTHIC, CLAY]"

record HistoryItem =
  item_id :: string
  item_originalImage :: string
  item_generatedAvatar :: string
  item_style :: AvatarStyle
  item_timestamp :: int

text \<open>\<^verbatim>\<open>ExtendedAppState\<close> of App.tsx: \<^verbatim>\<open>AppState\<close> and the three transient fields.\<close>

record AppState =
  originalImage :: "string option"
  generatedAvatar :: "string option"
  isGenerating :: bool
  style :: AvatarStyle
  error :: "string option"
  isDragging :: bool
  progressStep :: int
  progressPercent :: rat
  history :: "HistoryItem list"

subsection \<open>services/geminiService.ts\<close>

text \<open>The response of \<^verbatim>\<open>ai.models.generateContent\<close>, with the optional properties the
  source tests.\<close>

datatype Blob = Blob (data: "string option") (mimeType: "string option")

datatype Part = Part (inlineData: "Blob option") (part_text: "string option")

datatype Content = Content (parts: "Part list option")

datatype Candidate = Candidate (content: "Content option")

datatype GenerateContentResponse = Response (candidates: "Candidate list option")

text \<open>The remote call either throws (an error with an optional message) or returns a response.\<close>

datatype ApiResult = ApiThrows "string option" | ApiReturns GenerateContentResponse

text \<open>A template literal prints an undefined value as the word \<^verbatim>\<open>undefined\<close>.\<close>

definition interpolate :: "string option \<Rightarrow> string" where
  "interpolate v = (case v of None \<Rightarrow> ''undefined'' | Some s \<Rightarrow> s)"

text \<open>The loop over the parts: the first part that has inline data sets \<^verbatim>\<open>imageUrl\<close>
  and breaks; \<^verbatim>\<open>imageUrl\<close> stays empty otherwise.\<close>

fun first_inline :: "Part list \<Rightarrow> string" where
  "first_inline [] = []"
| "first_inline (p # ps) =
     (case inlineData p of
        Some b \<Rightarrow> ''data:image/png;base64,'' @ interpolate (data b)
      | None \<Rightarrow> first_inline ps)"

text \<open>\<^verbatim>\<open>response.candidates && response.candidates[0]?.content?.parts\<close>.\<close>

definition response_parts :: "GenerateContentResponse \<Rightarrow> Part list option" where
  "response_parts r =
     (case candidates r of
        None \<Rightarrow> None
      | Some cs \<Rightarrow>
          (case at_index cs 0 of
             None \<Rightarrow> None
           | Some c \<Rightarrow> (case content c of None \<Rightarrow> None | Some ct \<Rightarrow> parts ct)))"

definition extract_image :: "GenerateContentResponse \<Rightarrow> string" where
  "extract_image r = (case response_parts r of None \<Rightarrow> [] | Some ps \<Rightarrow> first_inline ps)"

text \<open>The inline data sent with the request: \<^verbatim>\<open>base64Image.split(',')[1]\<close> and
  \<^verbatim>\<open>base64Image.split(';')[0].split(':')[1]\<close>.\<close>

definition base64Data :: "string \<Rightarrow> string option" where
  "base64Data base64Image = at_index (split base64Image CHR '','') 1"

definition mimeType_of :: "string \<Rightarrow> string option" where
  "mimeType_of base64Image =
     (case at_index (split base64Image CHR '';'') 0 of
        None \<Rightarrow> None
      | Some h \<Rightarrow> at_index (split h CHR '':'') 1)"

text \<open>
  \<^verbatim>\<open>generateAvatar\<close>. The promise resolves with \<open>Inr\<close> and rejects with \<open>Inl\<close> of the
  error's message. \<open>apiKey\<close> is \<^verbatim>\<open>process.env.API_KEY\<close>; \<open>generateContent\<close> is the remote
  model, which receives the inline data and the style (the prompt text is a function of the
  style only). An error thrown inside the \<^verbatim>\<open>try\<close> block, the one for a missing image
  part included, is caught and thrown again with its message or the fallback text.
\<close>

definition generateAvatar ::
  "string option \<Rightarrow> (Blob \<Rightarrow> AvatarStyle \<Rightarrow> ApiResult) \<Rightarrow> string \<Rightarrow> AvatarStyle \<Rightarrow> string + string"
where
  "generateAvatar apiKey generateContent base64Image sty =
     (if \<not> truthy apiKey
      then Inl ''API Key is missing. Please ensure process.env.API_KEY is configured.''
      else
        (case generateContent (Blob (base64Data base64Image) (mimeType_of base64Image)) sty of
           ApiThrows m \<Rightarrow> Inl (or_else m ''Failed to generate avatar. Please try again.'')
         | ApiReturns response \<Rightarrow>
             (let imageUrl = extract_image response in
              if imageUrl = []
              then Inl (or_else (Some ''The model did not return an image part in the response.'')
                          ''Failed to generate avatar. Please try again.'')
              else Inr imageUrl)))"

subsection \<open>App.tsx: constants and the initial state\<close>

text \<open>\<^verbatim>\<open>PROGRESS_MESSAGES\<close>: seven status messages (UTF-8 bytes of the Chinese text).\<close>

definition PROGRESS_MESSAGES :: "string list" where
  "PROGRESS_MESSAGES =
    [[CHR 0xE6, CHR 0xAD, CHR 0xA3, CHR 0xE5, CHR 0x9C, CHR 0xA8, CHR 0xE8, CHR 0xAF,
      CHR 0x86, CHR 0xE5, CHR 0x88, CHR 0xAB, CHR 0xE9, CHR 0x9D, CHR 0xA2, CHR 0xE9,
      CHR 0x83, CHR 0xA8, CHR 0xE7, CHR 0x89, CHR 0xB9, CHR 0xE5, CHR 0xBE, CHR 0x81,
      CHR 0x2E, CHR 0x2E, CHR 0x2E],
     [CHR 0xE5, CHR 0x88, CHR 0x86, CHR 0xE6, CHR 0x9E, CHR 0x90, CHR 0xE4, CHR 0xBA,
      CHR 0x94, CHR 0xE5, CHR 0xAE, CHR 0x98, CHR 0xE6, CHR 0xAF, CHR 0x94, CHR 0xE4,
      CHR 0xBE, CHR 0x8B, CHR 0x2E, CHR 0x2E, CHR 0x2E],
     [CHR 0xE5, CHR 0x8B, CHR 0xBE, CHR 0xE5, CHR 0x8B, CHR 0x92, CHR 0xE8, CHR 0x89,
      CHR 0xBA, CHR 0xE6, CHR 0x9C, CHR 0xAF, CHR 0xE8, CHR 0xBD, CHR 0xAE, CHR 0xE5,
      CHR 0xBB, CHR 0x93, CHR 0x2E, CHR 0x2E, CHR 0x2E],
     [CHR 0xE5, CHR 0x8C, CHR 0xB9, CHR 0xE9, CHR 0x85, CHR 0x8D, CHR 0xE4, CHR 0xB8,
      CHR 0x93, CHR 0xE5, CHR 0xB1, CHR 0x9E, CHR 0xE9, CHR 0xA3, CHR 0x8E, CHR 0xE6,
      CHR 0xA0, CHR 0xBC, CHR 0xE8, CHR 0x89, CHR 0xB2, CHR 0xE5, CHR 0xBD, CHR 0xA9,
      CHR 0x2E, CHR 0x2E, CHR 0x2E],
     [CHR 0xE7, CHR 0xB2, CHR 0xBE, CHR 0xE7, CHR 0xBB, CHR 0x86, CHR 0xE8, CHR 0xBF,
      CHR 0x98, CHR 0xE5, CHR 0x8E, CHR 0x9F, CHR 0xE6, CHR 0x9C, CHR 0x8D, CHR 0xE9,
      CHR 0xA5, CHR 0xB0, CHR 0xE7, CHR 0xBB, CHR 0x86, CHR 0xE8, CHR 0x8A, CHR 0x82,
      CHR 0x2E, CHR 0x2E, CHR 0x2E],
     [CHR 0xE6, CHR 0xAD, CHR 0xA3, CHR 0xE5, CHR 0x9C, CHR 0xA8, CHR 0xE8, CHR 0xBF,
      CHR 0x9B, CHR 0xE8, CHR 0xA1, CHR 0x8C, CHR 0xE5, CHR 0x85, CHR 0x89, CHR 0xE5,
      CHR 0xBD, CHR 0xB1, CHR 0xE6, CHR 0xB8, CHR 0xB2, CHR 0xE6, CHR 0x9F, CHR 0x93,
      CHR 0x2E, CHR 0x2E, CHR 0x2E],
     [CHR 0xE5, CHR 0x8D, CHR 0xB3, CHR 0xE5, CHR 0xB0, CHR 0x86, CHR 0xE5, CHR 0xAE,
      CHR 0x8C, CHR 0xE6, CHR 0x88, CHR 0x90, CHR 0xEF, CHR 0xBC, CHR 0x8C, CHR 0xE6,
      CHR 0xAD, CHR 0xA3, CHR 0xE5, CHR 0x9C, CHR 0xA8, CHR 0xE6, CHR 0x94, CHR 0xB6,
      CHR 0xE5, CHR 0xB0, CHR 0xBE, CHR 0x2E, CHR 0x2E, CHR 0x2E]]"

text \<open>The message shown for a file that is not an image ("please upload a valid image
  file").\<close>

definition INVALID_FILE_MESSAGE :: string where
  "INVALID_FILE_MESSAGE =
     [CHR 0xE8, CHR 0xAF, CHR 0xB7, CHR 0xE4, CHR 0xB8, CHR 0x8A, CHR 0xE4, CHR 0xBC,
      CHR 0xA0, CHR 0xE6, CHR 0x9C, CHR 0x89, CHR 0xE6, CHR 0x95, CHR 0x88, CHR 0xE7,
      CHR 0x9A, CHR 0x84, CHR 0xE5, CHR 0x9B, CHR 0xBE, CHR 0xE7, CHR 0x89, CHR 0x87,
      CHR 0xE6, CHR 0x96, CHR 0x87, CHR 0xE4, CHR 0xBB, CHR 0xB6, CHR 0xE3, CHR 0x80,
      CHR 0x82]"

text \<open>The fallback shown when a failed generation carries no message ("generation failed,
  please retry").\<close>

definition GENERATION_FAILED_MESSAGE :: string where
  "GENERATION_FAILED_MESSAGE =
     [CHR 0xE7, CHR 0x94, CHR 0x9F, CHR 0xE6, CHR 0x88, CHR 0x90, CHR 0xE5, CHR 0xA4,
      CHR 0xB1, CHR 0xE8, CHR 0xB4, CHR 0xA5, CHR 0xEF, CHR 0xBC, CHR 0x8C, CHR 0xE8,
      CHR 0xAF, CHR 0xB7, CHR 0xE9, CHR 0x87, CHR 0x8D, CHR 0xE8, CHR 0xAF, CHR 0x95,
      CHR 0xE3, CHR 0x80, CHR 0x82]"

text \<open>The argument of \<^verbatim>\<open>useState\<close>.\<close>

definition initialState :: AppState where
  "initialState =
     \<lparr>originalImage = None, generatedAvatar = None, isGenerating = False, style = PIXAR,
      error = None, isDragging = False, progressStep = 0, progressPercent = 0, history = []\<rparr>"

subsection \<open>App.tsx: the effects\<close>

text \<open>
  The history load effect. \<open>savedHistory\<close> is what \<^verbatim>\<open>localStorage.getItem\<close> returns and
  \<open>JSON_parse\<close> is \<^verbatim>\<open>JSON.parse\<close>, with \<open>None\<close> for a thrown syntax error; the parsed
  value is taken to have the declared type \<^verbatim>\<open>HistoryItem[]\<close>, which the source does not
  check.
\<close>

definition loadHistory ::
  "string option \<Rightarrow> (string \<Rightarrow> HistoryItem list option) \<Rightarrow> AppState \<Rightarrow> AppState"
where
  "loadHistory savedHistory JSON_parse prev =
     (case savedHistory of
        None \<Rightarrow> prev
      | Some sv \<Rightarrow>
          if sv = [] then prev
          else (case JSON_parse sv of None \<Rightarrow> prev | Some parsed \<Rightarrow> prev\<lparr>history := parsed\<rparr>))"

text \<open>
  The save effect writes \<^verbatim>\<open>JSON.stringify(state.history)\<close> under the storage key. For an
  array of history items that is the text below: the members in the order of the object
  literal, no white space, strings quoted with the escapes of \<^verbatim>\<open>JSON.stringify\<close>.
\<close>

definition hex_digit :: "nat \<Rightarrow> char" where
  "hex_digit d = ''0123456789abcdef'' ! d"

definition json_escape :: "char \<Rightarrow> string" where
  "json_escape c =
     (if c = CHR 0x22 then [CHR 0x5C, CHR 0x22]
      else if c = CHR 0x5C then [CHR 0x5C, CHR 0x5C]
      else if c = CHR 0x08 then [CHR 0x5C, CHR ''b'']
      else if c = CHR 0x0C then [CHR 0x5C, CHR ''f'']
      else if c = CHR 0x0A then [CHR 0x5C, CHR ''n'']
      else if c = CHR 0x0D then [CHR 0x5C, CHR ''r'']
      else if c = CHR 0x09 then [CHR 0x5C, CHR ''t'']
      else if (of_char c :: nat) < 32
        then [CHR 0x5C, CHR ''u'', CHR ''0'', CHR ''0'',
              hex_digit (of_char c div 16), hex_digit (of_char c mod 16)]
      else [c])"

definition json_string :: "string \<Rightarrow> string" where
  "json_string s = [CHR 0x22] @ concat (map json_escape s) @ [CHR 0x22]"

definition json_item :: "HistoryItem \<Rightarrow> string" where
  "json_item item =
     ''{'' @ json_string ''id'' @ '':'' @ json_string (item_id item) @ '','' @
     json_string ''originalImage'' @ '':'' @ json_string (item_originalImage item) @ '','' @
     json_string ''generatedAvatar'' @ '':'' @ json_string (item_generatedAvatar item) @ '','' @
     json_string ''style'' @ '':'' @ json_string (AvatarStyle_text (item_style item)) @ '','' @
     json_string ''timestamp'' @ '':'' @ toString (item_timestamp item) @ ''}''"

fun join :: "string \<Rightarrow> string list \<Rightarrow> string" where
  "join sep [] = []"
| "join sep [x] = x"
| "join sep (x # y # ys) = x @ sep @ join sep (y # ys)"

definition JSON_stringify :: "HistoryItem list \<Rightarrow> string" where
  "JSON_stringify items = ''['' @ join '','' (map json_item items) @ '']''"

text \<open>The callback of the progress interval; \<open>startTime\<close> was read when the interval was
  started and \<open>now\<close> is read by the callback.\<close>

definition progressTick :: "int \<Rightarrow> int \<Rightarrow> AppState \<Rightarrow> AppState" where
  "progressTick startTime now prev =
     (let elapsed = now - startTime;
          expectedDuration = 15000;
          rawPercent = min ((of_int elapsed / expectedDuration) * 100) (98 :: rat);
          stepIndex = min \<lfloor>(rawPercent / 100) * of_nat (length PROGRESS_MESSAGES)\<rfloor>
                          (int (length PROGRESS_MESSAGES) - 1)
      in prev\<lparr>progressPercent := rawPercent, progressStep := stepIndex\<rparr>)"

text \<open>The other branch of the progress effect, taken when \<^verbatim>\<open>isGenerating\<close> is false.\<close>

definition progressReset :: "AppState \<Rightarrow> AppState" where
  "progressReset prev = prev\<lparr>progressPercent := 0, progressStep := 0\<rparr>"

subsection \<open>App.tsx: the handlers\<close>

record File =
  file_type :: string

text \<open>
  \<^verbatim>\<open>processFile\<close>. A file that is not an image sets the error at once. An image file is read
  asynchronously; \<open>result\<close> is \<^verbatim>\<open>reader.result\<close> when \<^verbatim>\<open>onloadend\<close> fires and
  \<open>prev\<close> is the state at that moment.
\<close>

definition processFile :: "File \<Rightarrow> string option \<Rightarrow> AppState \<Rightarrow> AppState" where
  "processFile file result prev =
     (if \<not> startsWith (file_type file) ''image/''
      then prev\<lparr>error := Some INVALID_FILE_MESSAGE\<rparr>
      else prev\<lparr>originalImage := result, error := None, generatedAvatar := None\<rparr>)"

definition handleFileUpload :: "File option \<Rightarrow> string option \<Rightarrow> AppState \<Rightarrow> AppState" where
  "handleFileUpload file result prev =
     (case file of None \<Rightarrow> prev | Some f \<Rightarrow> processFile f result prev)"

definition handleDragOver :: "AppState \<Rightarrow> AppState" where
  "handleDragOver prev = prev\<lparr>isDragging := True\<rparr>"

definition handleDragLeave :: "AppState \<Rightarrow> AppState" where
  "handleDragLeave prev = prev\<lparr>isDragging := False\<rparr>"

definition handleDrop :: "File option \<Rightarrow> string option \<Rightarrow> AppState \<Rightarrow> AppState" where
  "handleDrop file result prev =
     (let prev1 = prev\<lparr>isDragging := False\<rparr>
      in case file of None \<Rightarrow> prev1 | Some f \<Rightarrow> processFile f result prev1)"

text \<open>The style buttons.\<close>

definition selectStyle :: "AvatarStyle \<Rightarrow> AppState \<Rightarrow> AppState" where
  "selectStyle s prev = prev\<lparr>style := s\<rparr>"

definition availableStyles :: "AvatarStyle \<Rightarrow> AvatarStyle list" where
  "availableStyles current = filter (\<lambda>s. s \<noteq> current) AvatarStyle_values"

text \<open>
  \<^verbatim>\<open>handleRandomStyle\<close>. \<open>random\<close> is the value of \<^verbatim>\<open>Math.random()\<close>, a double that is
  at least 0 and below 1; its product with the number of available styles is a double
  multiplication, so the exact product is rounded before the floor is taken. The result
  \<open>None\<close> stands for the one outcome the state type cannot hold: an index out of range,
  which would store \<^verbatim>\<open>undefined\<close> as the style.
\<close>

definition randomStyle :: "rat \<Rightarrow> AvatarStyle \<Rightarrow> AvatarStyle option" where
  "randomStyle random current =
     (let available = availableStyles current;
          i = \<lfloor>round_double (random * of_nat (length available))\<rfloor>
      in if i < 0 then None else at_index available (nat i))"

definition handleRandomStyle :: "rat \<Rightarrow> AppState \<Rightarrow> AppState \<Rightarrow> AppState option" where
  "handleRandomStyle random state prev =
     (if isGenerating state then Some prev
      else map_option (\<lambda>s. prev\<lparr>style := s\<rparr>) (randomStyle random (style state)))"

text \<open>
  \<^verbatim>\<open>handleGenerate\<close>. The promise of \<^verbatim>\<open>generateAvatar\<close> settles with an \<open>Outcome\<close>:
  \<open>Resolved result now_id now_ts\<close> carries the resolved string and the two readings of
  \<^verbatim>\<open>Date.now()\<close> taken for the id and for the timestamp; \<open>Rejected m\<close> carries the
  \<^verbatim>\<open>message\<close> property of the error.
\<close>

datatype Outcome = Resolved string int int | Rejected "string option"

definition dispatchUpdate :: "AppState \<Rightarrow> AppState" where
  "dispatchUpdate prev = prev\<lparr>isGenerating := True, error := None, generatedAvatar := None\<rparr>"

definition newHistoryItem :: "string \<Rightarrow> AvatarStyle \<Rightarrow> string \<Rightarrow> int \<Rightarrow> int \<Rightarrow> HistoryItem" where
  "newHistoryItem img sty result now_id now_ts =
     \<lparr>item_id = toString now_id, item_originalImage = img, item_generatedAvatar = result,
      item_style = sty, item_timestamp = now_ts\<rparr>"

text \<open>The two updates after the \<^verbatim>\<open>await\<close>; \<open>img\<close> and \<open>sty\<close> are
  \<^verbatim>\<open>state.originalImage\<close> and \<^verbatim>\<open>state.style\<close> of the render that dispatched.\<close>

fun settleUpdate :: "string \<Rightarrow> AvatarStyle \<Rightarrow> Outcome \<Rightarrow> AppState \<Rightarrow> AppState" where
  "settleUpdate img sty (Resolved result now_id now_ts) prev =
     prev\<lparr>generatedAvatar := Some result, isGenerating := False, progressPercent := 100,
          history := take 20 (newHistoryItem img sty result now_id now_ts # history prev)\<rparr>"
| "settleUpdate img sty (Rejected m) prev =
     prev\<lparr>isGenerating := False, error := Some (or_else m GENERATION_FAILED_MESSAGE)\<rparr>"

text \<open>What one call of \<^verbatim>\<open>handleGenerate\<close> does when it passes its guard: the first state
  update, the arguments of \<^verbatim>\<open>generateAvatar\<close>, and the update made when the promise
  settles.\<close>

datatype Dispatch =
  Dispatch (first_update: "AppState \<Rightarrow> AppState") (request: "string \<times> AvatarStyle")
    (on_settled: "Outcome \<Rightarrow> AppState \<Rightarrow> AppState")

definition handleGenerate :: "AppState \<Rightarrow> Dispatch option" where
  "handleGenerate state =
     (case originalImage state of
        None \<Rightarrow> None
      | Some img \<Rightarrow>
          if img = [] then None
          else Some (Dispatch dispatchUpdate (img, style state)
                       (settleUpdate img (style state))))"

definition handleSelectHistoryItem :: "HistoryItem \<Rightarrow> AppState \<Rightarrow> AppState" where
  "handleSelectHistoryItem item prev =
     prev\<lparr>originalImage := Some (item_originalImage item),
          generatedAvatar := Some (item_generatedAvatar item),
          style := item_style item, error := None\<rparr>"

definition handleDeleteHistoryItem :: "string \<Rightarrow> AppState \<Rightarrow> AppState" where
  "handleDeleteHistoryItem i prev =
     prev\<lparr>history := filter (\<lambda>item. item_id item \<noteq> i) (history prev)\<rparr>"

text \<open>\<open>confirmed\<close> is the answer of \<^verbatim>\<open>window.confirm\<close>.\<close>

definition handleClearHistory :: "bool \<Rightarrow> AppState \<Rightarrow> AppState" where
  "handleClearHistory confirmed prev = (if confirmed then prev\<lparr>history := []\<rparr> else prev)"

subsection \<open>App.tsx: the rendered controls and the event loop\<close>

text \<open>The \<^verbatim>\<open>disabled\<close> attribute of the generate button; a disabled button delivers no
  click, so \<^verbatim>\<open>handleGenerate\<close> runs only from a render in which the button is enabled.\<close>

definition generateDisabled :: "AppState \<Rightarrow> bool" where
  "generateDisabled state = (\<not> truthy (originalImage state) \<or> isGenerating state)"

definition clickGenerate :: "AppState \<Rightarrow> Dispatch option" where
  "clickGenerate state = (if generateDisabled state then None else handleGenerate state)"

text \<open>
  The running application: the React state, the requests of \<^verbatim>\<open>generateAvatar\<close> that have
  not settled yet (each with the image and style its handler captured), and the start
  time of the progress interval while one is installed.
\<close>

record System =
  app :: AppState
  inflight :: "(string \<times> AvatarStyle) list"
  timerStart :: "int option"

text \<open>Mounting the component runs the load effect and the progress effect on the initial
  state.\<close>

definition mount :: "string option \<Rightarrow> (string \<Rightarrow> HistoryItem list option) \<Rightarrow> System" where
  "mount savedHistory JSON_parse =
     \<lparr>app = progressReset (loadHistory savedHistory JSON_parse initialState),
      inflight = [], timerStart = None\<rparr>"

text \<open>
  The events the application reacts to; each is handled atomically. The style buttons and
  the random button are disabled while generating; a history entry is addressed by its
  position in the rendered list; the clear button exists only while the history is not
  empty. \<open>FileUpload\<close> and \<open>Drop\<close> carry the file (if any) and what the file reader delivers
  for it, the read being taken to finish within the event; \<open>ClickRandomStyle\<close> carries the
  value of \<^verbatim>\<open>Math.random()\<close>; \<open>ClickGenerate\<close> carries the clock value the progress
  effect reads when it starts; \<open>Settle\<close> delivers the outcome of the oldest unsettled
  request; \<open>Tick\<close> carries the clock value the interval callback reads; \<open>ClickClear\<close>
  carries the answer to the confirmation dialog; \<open>Effect\<close> is the run of the progress
  effect that follows a settled request.
\<close>

datatype Event =
    FileUpload "File option" "string option"
  | DragOver
  | DragLeave
  | Drop "File option" "string option"
  | ClickStyle AvatarStyle
  | ClickRandomStyle rat
  | ClickGenerate int
  | Settle Outcome
  | Tick int
  | ClickHistoryItem nat
  | ClickDelete nat
  | ClickClear bool
  | Effect

text \<open>
  The progress effect depends on \<^verbatim>\<open>state.isGenerating\<close> only, so it runs after the two
  events that change that field. The render of a dispatch comes from a click, and React
  runs the effects of such a render within it: the dispatch installs the interval (\<open>now\<close>
  becomes its \<^verbatim>\<open>startTime\<close>). The render of a settled request comes from a promise; it is
  committed first, with \<^verbatim>\<open>isGenerating\<close> false and the interval of the previous effect
  still installed, and its effect runs afterwards: \<open>effectPending\<close> holds in between, and
  \<open>runEffect\<close> is the effect (the cleanup and the branch for \<^verbatim>\<open>isGenerating\<close> false),
  which clears the interval and resets the progress fields.
\<close>

definition effectPending :: "System \<Rightarrow> bool" where
  "effectPending sys = (\<not> isGenerating (app sys) \<and> timerStart sys \<noteq> None)"

definition runEffect :: "System \<Rightarrow> System" where
  "runEffect sys = sys\<lparr>app := progressReset (app sys), timerStart := None\<rparr>"

text \<open>What an event does when no effect is pending.\<close>

fun handle :: "Event \<Rightarrow> System \<Rightarrow> System" where
  "handle (FileUpload file result) sys = sys\<lparr>app := handleFileUpload file result (app sys)\<rparr>"
| "handle DragOver sys = sys\<lparr>app := handleDragOver (app sys)\<rparr>"
| "handle DragLeave sys = sys\<lparr>app := handleDragLeave (app sys)\<rparr>"
| "handle (Drop file result) sys = sys\<lparr>app := handleDrop file result (app sys)\<rparr>"
| "handle (ClickStyle s) sys =
     (if isGenerating (app sys) then sys else sys\<lparr>app := selectStyle s (app sys)\<rparr>)"
| "handle (ClickRandomStyle random) sys =
     (if isGenerating (app sys) then sys
      else (case handleRandomStyle random (app sys) (app sys) of
              None \<Rightarrow> sys
            | Some a \<Rightarrow> sys\<lparr>app := a\<rparr>))"
| "handle (ClickGenerate now) sys =
     (case clickGenerate (app sys) of
        None \<Rightarrow> sys
      | Some d \<Rightarrow>
          sys\<lparr>app := first_update d (app sys),
              inflight := inflight sys @ [request d],
              timerStart := Some now\<rparr>)"
| "handle (Settle outcome) sys =
     (case inflight sys of
        [] \<Rightarrow> sys
      | (img, sty) # rest \<Rightarrow>
          sys\<lparr>app := settleUpdate img sty outcome (app sys), inflight := rest\<rparr>)"
| "handle (Tick now) sys =
     (case timerStart sys of
        None \<Rightarrow> sys
      | Some startTime \<Rightarrow> sys\<lparr>app := progressTick startTime now (app sys)\<rparr>)"
| "handle (ClickHistoryItem i) sys =
     (case at_index (history (app sys)) i of
        None \<Rightarrow> sys
      | Some item \<Rightarrow> sys\<lparr>app := handleSelectHistoryItem item (app sys)\<rparr>)"
| "handle (ClickDelete i) sys =
     (case at_index (history (app sys)) i of
        None \<Rightarrow> sys
      | Some item \<Rightarrow> sys\<lparr>app := handleDeleteHistoryItem (item_id item) (app sys)\<rparr>)"
| "handle (ClickClear confirmed) sys =
     (if history (app sys) = [] then sys
      else sys\<lparr>app := handleClearHistory confirmed (app sys)\<rparr>)"
| "handle Effect sys = sys"

text \<open>
  React runs a pending effect before it renders the next update. So while the effect is
  pending the only step is the effect; another event is taken to arrive after it and is
  passed over here.
\<close>

definition step :: "Event \<Rightarrow> System \<Rightarrow> System" where
  "step e sys =
     (if effectPending sys then (if e = Effect then runEffect sys else sys)
      else handle e sys)"

fun run :: "Event list \<Rightarrow> System \<Rightarrow> System" where
  "run [] sys = sys"
| "run (e # es) sys = run es (step e sys)"

text \<open>The timer ticks between a dispatch and its settlement.\<close>

fun ticks :: "int \<Rightarrow> int list \<Rightarrow> AppState \<Rightarrow> AppState" where
  "ticks startTime [] prev = prev"
| "ticks startTime (now # nows) prev = ticks startTime nows (progressTick startTime now prev)"


text \<open>The clock values read by the ticks of a list of events, in order.\<close>

fun tick_times :: "Event list \<Rightarrow> int list" where
  "tick_times [] = []"
| "tick_times (Tick now # es) = now # tick_times es"
| "tick_times (e # es) = tick_times es"

text \<open>The events that settle a request, select a history entry, or delete history
  entries.\<close>

fun settles :: "Event \<Rightarrow> bool" where
  "settles (Settle outcome) = True"
| "settles e = False"

fun selects_item :: "Event \<Rightarrow> bool" where
  "selects_item (ClickHistoryItem i) = True"
| "selects_item e = False"

fun edits_history :: "Event \<Rightarrow> bool" where
  "edits_history (ClickDelete i) = True"
| "edits_history (ClickClear confirmed) = True"
| "edits_history e = False"

section \<open>Sample inputs\<close>

text \<open>A response whose second part carries inline data, for a JPEG request.\<close>

definition sample_response :: GenerateContentResponse where
  "sample_response =
     Response (Some [Candidate (Some (Content (Some
       [Part None (Some ''done''),
        Part (Some (Blob (Some ''QUJD'') (Some ''image/jpeg''))) None])))])"

text \<open>An uploaded photograph, the state after its upload with the anime style selected, and
  the dispatch that \<^verbatim>\<open>handleGenerate\<close> makes from that state.\<close>

definition sample_photo :: string where
  "sample_photo = ''data:image/jpeg;base64,AAAA''"

definition sample_state :: AppState where
  "sample_state = initialState\<lparr>originalImage := Some sample_photo, style := ANIME\<rparr>"

definition sample_dispatch :: Dispatch where
  "sample_dispatch =
     Dispatch dispatchUpdate (sample_photo, ANIME) (settleUpdate sample_photo ANIME)"

text \<open>The application while that request is in flight, the interval started at time 1000.\<close>

definition generating_system :: System where
  "generating_system =
     \<lparr>app = dispatchUpdate sample_state, inflight = [(sample_photo, ANIME)],
      timerStart = Some 1000\<rparr>"

text \<open>A user session: upload a photograph, pick the anime style, click generate, click
  generate again.\<close>

definition sample_file :: File where
  "sample_file = \<lparr>file_type = ''image/jpeg''\<rparr>"

definition double_click :: "Event list" where
  "double_click =
     [FileUpload (Some sample_file) (Some sample_photo), ClickStyle ANIME,
      ClickGenerate 1000, ClickGenerate 1010]"

text \<open>A file that is not an image, and a state that holds a photograph and an avatar.\<close>

definition pdf_file :: File where
  "pdf_file = \<lparr>file_type = ''application/pdf''\<rparr>"

definition finished_state :: AppState where
  "finished_state = sample_state\<lparr>generatedAvatar := Some ''data:image/png;base64,QUJD''\<rparr>"

text \<open>History entries: \<open>sample_item n\<close> was created at time \<open>n\<close>.\<close>

definition sample_item :: "int \<Rightarrow> HistoryItem" where
  "sample_item n = newHistoryItem sample_photo ANIME ''data:image/png;base64,QUJD'' n n"

text \<open>A persisted list of 21 entries, newest first: \<open>stored_text\<close> is the JSON text of the
  list, as the save effect would write it, and \<open>parse_stored\<close> does what
  \<^verbatim>\<open>JSON.parse\<close> does on that text.\<close>

definition stored_21 :: "HistoryItem list" where
  "stored_21 = map (\<lambda>n. sample_item (int n)) (rev [0..<21])"

definition stored_text :: string where
  "stored_text = JSON_stringify stored_21"

text \<open>A history of 20 entries, newest first, with \<^verbatim>\<open>JSON.parse\<close> on its text, and a
  history in which two entries carry the same id.\<close>

definition full_history :: "HistoryItem list" where
  "full_history = map (\<lambda>n. sample_item (int n)) (rev [0..<20])"

definition parse_stored :: "string \<Rightarrow> HistoryItem list option" where
  "parse_stored t = (if t = stored_text then Some stored_21 else None)"

definition parse_full :: "string \<Rightarrow> HistoryItem list option" where
  "parse_full t = (if t = JSON_stringify full_history then Some full_history else None)"

definition twin_history :: "HistoryItem list" where
  "twin_history =
     [sample_item 7, sample_item 3, (sample_item 7)\<lparr>item_style := CLAY, item_timestamp := 8\<rparr>]"

text \<open>A history of three entries with pairwise distinct ids.\<close>

definition short_history :: "HistoryItem list" where
  "short_history = [sample_item 7, sample_item 3, sample_item 1]"


text \<open>An empty store, and the session that uploads a photograph and picks the anime
  style.\<close>

definition empty_store :: System where
  "empty_store = mount None (\<lambda>t. None)"

definition upload_session :: "Event list" where
  "upload_session = [FileUpload (Some sample_file) (Some sample_photo), ClickStyle ANIME]"

text \<open>Events while a request is in flight: two ticks and a drag in between.\<close>

definition while_generating :: "Event list" where
  "while_generating = [Tick 1100, DragOver, Tick 1200]"

text \<open>A generation that succeeds, followed by its effect.\<close>

definition one_success :: "Event list" where
  "one_success =
     upload_session @
     [ClickGenerate 1000, Tick 1100, Settle (Resolved ''data:image/png;base64,QUJD'' 20 20),
      Effect]"

text \<open>After it, a second request during which the history entry is selected, or deleted,
  and which then fails.\<close>

definition select_then_fail :: "Event list" where
  "select_then_fail =
     one_success @
     [ClickGenerate 2000, ClickHistoryItem 0, Settle (Rejected (Some ''Quota exceeded''))]"

definition delete_then_fail :: "Event list" where
  "delete_then_fail =
     one_success @
     [ClickGenerate 2000, ClickDelete 0, Settle (Rejected (Some ''Quota exceeded''))]"

text \<open>A session on a persisted history of 20 entries: a generation that succeeds, a
  deletion, a second generation that succeeds, and clearing the history.\<close>

definition full_store :: System where
  "full_store = mount (Some (JSON_stringify full_history)) parse_full"

definition delete_one :: "Event list" where
  "delete_one = one_success @ [ClickDelete 3]"

definition second_success :: "Event list" where
  "second_success =
     delete_one @
     [ClickGenerate 2000, Tick 2100, Settle (Resolved ''data:image/png;base64,QUJD'' 21 21),
      Effect]"

definition clear_all :: "Event list" where
  "clear_all = second_success @ [ClickClear True]"

section \<open>Invariants of the event loop\<close>

text \<open>A request is in flight exactly while \<^verbatim>\<open>isGenerating\<close> is true, the progress
  interval is installed then, and there is never more than one request.\<close>

definition single_flight :: "System \<Rightarrow> bool" where
  "single_flight sys =
     ((isGenerating (app sys) \<longleftrightarrow> inflight sys \<noteq> []) \<and>
      (isGenerating (app sys) \<longrightarrow> timerStart sys \<noteq> None) \<and>
      length (inflight sys) \<le> 1)"


section \<open>The generation client\<close>

lemma first_inline_shape:
  "first_inline ps = [] \<or> (\<exists>rest. first_inline ps = ''data:image/png;base64,'' @ rest)"
  by (induction ps) (auto split: option.splits)

lemma extract_image_shape:
  "extract_image r = [] \<or> (\<exists>rest. extract_image r = ''data:image/png;base64,'' @ rest)"
  unfolding extract_image_def using first_inline_shape by (auto split: option.splits)

lemma sample_run:
  "generateAvatar (Some ''key'') (\<lambda>b s. ApiReturns sample_response)
     ''data:image/jpeg;base64,AAAA'' ANIME = Inr ''data:image/png;base64,QUJD''"
  by (simp add: generateAvatar_def truthy_def sample_response_def extract_image_def
        response_parts_def interpolate_def Let_def)

text \<open>
  Claim C10. Whenever \<^verbatim>\<open>generateAvatar\<close> resolves, whatever the input payload, its
  declared media type and the style, the resolved string begins with
  \<^verbatim>\<open>data:image/png;base64,\<close>.
\<close>

theorem generateAvatar_png_prefix:
  "generateAvatar apiKey generateContent base64Image sty = Inr url \<Longrightarrow>
   \<exists>rest. url = ''data:image/png;base64,'' @ rest"
  using extract_image_shape
  by (fastforce simp: generateAvatar_def Let_def split: if_splits ApiResult.splits)

theorem generateAvatar_png_prefix_witness:
  "generateAvatar (Some ''key'') (\<lambda>b s. ApiReturns sample_response)
     ''data:image/jpeg;base64,AAAA'' ANIME = Inr ''data:image/png;base64,QUJD''
   \<and> (\<exists>rest. ''data:image/png;base64,QUJD'' = ''data:image/png;base64,'' @ rest)"
  using sample_run generateAvatar_png_prefix [OF sample_run] by simp

section \<open>Facts about the handlers\<close>

lemmas handler_defs =
  handleFileUpload_def handleDragOver_def handleDragLeave_def handleDrop_def processFile_def
  selectStyle_def handleRandomStyle_def handleSelectHistoryItem_def handleDeleteHistoryItem_def
  handleClearHistory_def progressTick_def progressReset_def dispatchUpdate_def

lemma isGenerating_settleUpdate [simp]: "isGenerating (settleUpdate img sty outcome prev) = False"
  by (cases outcome) simp_all

lemma handleGenerate_Some:
  "handleGenerate state = Some d \<Longrightarrow>
   \<exists>img. originalImage state = Some img \<and> img \<noteq> [] \<and>
         d = Dispatch dispatchUpdate (img, style state) (settleUpdate img (style state))"
  by (auto simp: handleGenerate_def split: option.splits if_splits)

lemma clickGenerate_Some:
  "clickGenerate state = Some d \<Longrightarrow>
   \<not> isGenerating state \<and> first_update d = dispatchUpdate"
  by (auto simp: clickGenerate_def generateDisabled_def handleGenerate_def
      split: if_splits option.splits)

text \<open>The timer ticks change the two progress fields only.\<close>

lemma ticks_frame:
  "history (ticks startTime nows s) = history s \<and>
   generatedAvatar (ticks startTime nows s) = generatedAvatar s \<and>
   isGenerating (ticks startTime nows s) = isGenerating s \<and>
   error (ticks startTime nows s) = error s \<and>
   originalImage (ticks startTime nows s) = originalImage s \<and>
   style (ticks startTime nows s) = style s"
  by (induction nows arbitrary: s) (simp_all add: progressTick_def Let_def)

lemma sample_handleGenerate: "handleGenerate sample_state = Some sample_dispatch"
  by (simp add: handleGenerate_def sample_state_def sample_dispatch_def sample_photo_def
      initialState_def)

section \<open>The event loop\<close>


lemma step_handle: "\<not> effectPending sys \<Longrightarrow> step e sys = handle e sys"
  by (simp add: step_def)

lemma step_generating: "isGenerating (app sys) \<Longrightarrow> step e sys = handle e sys"
  by (simp add: step_def effectPending_def)

lemma single_flight_mount: "single_flight (mount savedHistory JSON_parse)"
  by (simp add: single_flight_def mount_def progressReset_def loadHistory_def initialState_def
      split: option.splits)

lemma single_flight_handle: "single_flight sys \<Longrightarrow> single_flight (handle e sys)"
proof (cases e)
  case (ClickGenerate now)
  assume "single_flight sys"
  then show ?thesis using ClickGenerate
    by (auto simp: single_flight_def dispatchUpdate_def dest!: clickGenerate_Some
        split: option.splits)
next
  case (Settle outcome)
  assume "single_flight sys"
  then show ?thesis using Settle
    by (cases "inflight sys") (auto simp: single_flight_def)
qed (auto simp: single_flight_def handler_defs Let_def split: option.splits)

lemma single_flight_step: "single_flight sys \<Longrightarrow> single_flight (step e sys)"
  by (auto simp: step_def single_flight_handle)
    (auto simp: single_flight_def runEffect_def progressReset_def effectPending_def)

lemma single_flight_run: "single_flight sys \<Longrightarrow> single_flight (run evs sys)"
  by (induction evs arbitrary: sys) (simp_all add: single_flight_step)








lemma history_handle_le:
  "length (history (app sys)) \<le> 20 \<Longrightarrow> length (history (app (handle e sys))) \<le> 20"
proof (cases e)
  case (ClickGenerate now)
  assume "length (history (app sys)) \<le> 20"
  then show ?thesis using ClickGenerate
    by (auto simp: dispatchUpdate_def dest!: clickGenerate_Some split: option.splits)
next
  case (Settle outcome)
  assume "length (history (app sys)) \<le> 20"
  then show ?thesis using Settle
    by (cases "inflight sys"; cases outcome) auto
next
  case (ClickDelete i)
  assume a: "length (history (app sys)) \<le> 20"
  have "length (filter P (history (app sys))) \<le> 20" for P
    using a length_filter_le [of P "history (app sys)"] by linarith
  then show ?thesis using ClickDelete a
    by (auto simp: handleDeleteHistoryItem_def split: option.splits)
qed (auto simp: handler_defs Let_def split: option.splits)

lemma history_step_le:
  "length (history (app sys)) \<le> 20 \<Longrightarrow> length (history (app (step e sys))) \<le> 20"
  by (auto simp: step_def history_handle_le runEffect_def progressReset_def)

lemma history_run_le:
  "length (history (app sys)) \<le> 20 \<Longrightarrow> length (history (app (run evs sys))) \<le> 20"
  by (induction evs arbitrary: sys) (simp_all add: history_step_le)




text \<open>While a request is in flight, an event that does not settle it keeps it in flight.\<close>

lemma generating_step:
  assumes "isGenerating (app sys)" and "\<not> settles e"
  shows "isGenerating (app (step e sys)) \<and> timerStart (step e sys) = timerStart sys \<and>
         inflight (step e sys) = inflight sys \<and>
         (tick_times [e] = [] \<longrightarrow> progressPercent (app (step e sys)) = progressPercent (app sys)) \<and>
         (\<not> selects_item e \<longrightarrow> generatedAvatar (app sys) = None
            \<longrightarrow> generatedAvatar (app (step e sys)) = None) \<and>
         (\<not> edits_history e \<longrightarrow> history (app (step e sys)) = history (app sys))"
  using assms
  by (cases e)
    (auto simp: step_generating handler_defs clickGenerate_def generateDisabled_def Let_def
      split: option.splits)


lemma generating_run:
  assumes "isGenerating (app sys)" and "\<forall>e\<in>set evs. \<not> settles e"
  shows "isGenerating (app (run evs sys)) \<and> timerStart (run evs sys) = timerStart sys \<and>
         inflight (run evs sys) = inflight sys \<and>
         ((\<forall>e\<in>set evs. \<not> selects_item e) \<longrightarrow> generatedAvatar (app sys) = None
            \<longrightarrow> generatedAvatar (app (run evs sys)) = None) \<and>
         ((\<forall>e\<in>set evs. \<not> edits_history e) \<longrightarrow> history (app (run evs sys)) = history (app sys))"
  using assms
proof (induction evs arbitrary: sys)
  case Nil
  then show ?case by simp
next
  case (Cons e es)
  from Cons.prems have e: "\<not> settles e" and es: "\<forall>e\<in>set es. \<not> settles e" by simp_all
  note s = generating_step [OF Cons.prems(1) e]
  from s have g: "isGenerating (app (step e sys))" by simp
  note ih = Cons.IH [OF g es]
  show ?case using s ih by auto
qed


text \<open>A click that dispatches: the state after it.\<close>

lemma dispatch_step:
  assumes "single_flight sys" and "step (ClickGenerate now) sys \<noteq> sys"
  shows "\<exists>img. originalImage (app sys) = Some img \<and>
           step (ClickGenerate now) sys =
             sys\<lparr>app := dispatchUpdate (app sys), inflight := [(img, style (app sys))],
                 timerStart := Some now\<rparr> \<and>
           \<not> isGenerating (app sys) \<and> timerStart sys = None"
proof -
  from assms(2) have np: "\<not> effectPending sys" by (auto simp: step_def)
  with assms(2) obtain d where d: "clickGenerate (app sys) = Some d"
    by (auto simp: step_def split: option.splits)
  then have ng: "\<not> isGenerating (app sys)" by (simp add: clickGenerate_Some)
  then have "inflight sys = []" "timerStart sys = None"
    using assms(1) np by (auto simp: single_flight_def effectPending_def)
  moreover from d have "handleGenerate (app sys) = Some d"
    by (simp add: clickGenerate_def split: if_splits)
  from handleGenerate_Some [OF this] obtain img where
    "originalImage (app sys) = Some img"
    "d = Dispatch dispatchUpdate (img, style (app sys)) (settleUpdate img (style (app sys)))"
    by blast
  ultimately show ?thesis using d np ng by (auto simp: step_def)
qed

text \<open>The sample sessions.\<close>

lemma upload_session_run:
  "run upload_session empty_store =
     \<lparr>app = sample_state, inflight = [], timerStart = None\<rparr>"
  by (simp add: upload_session_def empty_store_def mount_def loadHistory_def progressReset_def
      initialState_def handleFileUpload_def processFile_def startsWith_def selectStyle_def
      sample_file_def sample_photo_def sample_state_def step_def effectPending_def)

lemma upload_session_dispatch:
  "step (ClickGenerate 1000) (run upload_session empty_store) = generating_system"
  by (simp add: upload_session_run step_def effectPending_def clickGenerate_def
      generateDisabled_def truthy_def handleGenerate_def generating_system_def
      sample_state_def initialState_def sample_photo_def)

lemma upload_session_dispatches:
  "step (ClickGenerate 1000) (run upload_session empty_store) \<noteq> run upload_session empty_store"
  by code_simp

lemma while_generating_events:
  "(\<forall>e\<in>set while_generating. \<not> settles e) \<and>
   (\<forall>e\<in>set while_generating. \<not> selects_item e) \<and>
   (\<forall>e\<in>set while_generating. \<not> edits_history e) \<and>
   tick_times while_generating = [1100, 1200]"
  by (simp add: while_generating_def)

lemma double_click_run:
  "run double_click (mount None (\<lambda>t. None)) = generating_system"
  by code_simp

section \<open>Dispatching a generation\<close>

text \<open>
  Claim C8. In every state whose \<^verbatim>\<open>originalImage\<close> is null, dispatching a generation is a
  no-op: \<^verbatim>\<open>handleGenerate\<close> returns at its guard, so it updates no state field and does
  not call the generation client, and a click on the generate button leaves the whole
  application (state, requests in flight, timer) as it was.
\<close>

theorem dispatch_without_image:
  "originalImage (app sys) = None \<Longrightarrow>
   handleGenerate (app sys) = None \<and> clickGenerate (app sys) = None \<and>
   step (ClickGenerate now) sys = sys"
  by (simp add: handleGenerate_def clickGenerate_def step_def)

theorem dispatch_without_image_witness:
  "originalImage (app (mount None (\<lambda>t. None))) = None \<and>
   handleGenerate (app (mount None (\<lambda>t. None))) = None \<and>
   clickGenerate (app (mount None (\<lambda>t. None))) = None \<and>
   step (ClickGenerate 1000) (mount None (\<lambda>t. None)) = mount None (\<lambda>t. None)"
proof -
  have h: "originalImage (app (mount None (\<lambda>t. None))) = None"
    by (simp add: mount_def loadHistory_def progressReset_def initialState_def)
  show ?thesis
    using h dispatch_without_image [OF h, of 1000] by simp
qed

text \<open>
  The guard of \<^verbatim>\<open>handleGenerate\<close> tests the image only: called with a state that holds an
  image, the handler dispatches whether or not \<^verbatim>\<open>isGenerating\<close> is set. What keeps a
  second request from being dispatched is the \<^verbatim>\<open>disabled\<close> attribute of the button, which
  is the only caller of the handler.
\<close>

lemma handleGenerate_tests_image_only:
  "truthy (originalImage state) \<Longrightarrow> handleGenerate state \<noteq> None"
  by (auto simp: handleGenerate_def truthy_def split: option.splits)

text \<open>
  Claim C2. In every state in which \<^verbatim>\<open>isGenerating\<close> is true the generate button is
  disabled, so dispatching a generation is a no-op: no state field changes and no second
  request is dispatched. Hence, in every state the application reaches from its mount, at
  most one generation request is in flight.
\<close>

theorem dispatch_while_generating:
  "(isGenerating (app sys) \<longrightarrow>
      generateDisabled (app sys) \<and> clickGenerate (app sys) = None \<and>
      step (ClickGenerate now) sys = sys) \<and>
   length (inflight (run evs (mount savedHistory JSON_parse))) \<le> 1"
proof -
  have "single_flight (run evs (mount savedHistory JSON_parse))"
    by (rule single_flight_run [OF single_flight_mount])
  then show ?thesis
    by (simp add: single_flight_def clickGenerate_def generateDisabled_def step_generating)
qed

theorem dispatch_while_generating_witness:
  "isGenerating (app generating_system) \<and>
   generateDisabled (app generating_system) \<and>
   clickGenerate (app generating_system) = None \<and>
   step (ClickGenerate 1010) generating_system = generating_system \<and>
   run double_click (mount None (\<lambda>t. None)) = generating_system \<and>
   length (inflight (run double_click (mount None (\<lambda>t. None)))) \<le> 1"
proof -
  have g: "isGenerating (app generating_system)"
    by (simp add: generating_system_def dispatchUpdate_def)
  show ?thesis
    using g double_click_run
      dispatch_while_generating [of generating_system 1010 double_click None "\<lambda>t. None"]
    by simp
qed

section \<open>Settling a generation\<close>

text \<open>
  Claim C1. Let \<^verbatim>\<open>handleGenerate\<close> dispatch from \<open>state\<close>; then \<^verbatim>\<open>originalImage\<close> is
  set and the request carries it together with the selected style. When the generation
  client resolves with \<open>P\<close>, and \<open>prev\<close> is the state at that moment, afterwards
  \<^verbatim>\<open>generatedAvatar\<close> is \<open>P\<close>, \<^verbatim>\<open>isGenerating\<close> is false, the first history entry is a new
  item with the image captured at dispatch, the avatar \<open>P\<close> and the style captured at
  dispatch, followed by the previous entries, and the length of the history is
  \<open>min (previous length + 1) 20\<close>. The dispatch and the timer ticks leave the history as
  it was before the dispatch.
\<close>

theorem generate_success:
  assumes "handleGenerate state = Some d"
  shows "\<exists>img. originalImage state = Some img \<and> request d = (img, style state) \<and>
           history (ticks startTime nows (first_update d state)) = history state \<and>
           (let s' = on_settled d (Resolved P now_id now_ts) prev in
              generatedAvatar s' = Some P \<and> isGenerating s' = False \<and>
              history s' =
                \<lparr>item_id = toString now_id, item_originalImage = img,
                 item_generatedAvatar = P, item_style = style state,
                 item_timestamp = now_ts\<rparr> # take 19 (history prev) \<and>
              length (history s') = min (length (history prev) + 1) 20)"
proof -
  from handleGenerate_Some [OF assms] obtain img where
    img: "originalImage state = Some img"
    and d: "d = Dispatch dispatchUpdate (img, style state) (settleUpdate img (style state))"
    by blast
  have "history (ticks startTime nows (first_update d state)) = history state"
    by (simp add: ticks_frame d dispatchUpdate_def)
  moreover have "take 20 (x # xs) = x # take 19 xs" for x :: HistoryItem and xs
    by (simp add: take_Cons')
  ultimately show ?thesis
    using img by (auto simp: d newHistoryItem_def Let_def)
qed

theorem generate_success_witness:
  "handleGenerate sample_state = Some sample_dispatch \<and>
   (\<exists>img. originalImage sample_state = Some img \<and>
      request sample_dispatch = (img, style sample_state) \<and>
      history (ticks 1000 [1100, 1200] (first_update sample_dispatch sample_state))
        = history sample_state \<and>
      (let s' = on_settled sample_dispatch (Resolved ''data:image/png;base64,QUJD'' 5 6)
                  (ticks 1000 [1100, 1200] (first_update sample_dispatch sample_state)) in
         generatedAvatar s' = Some ''data:image/png;base64,QUJD'' \<and> isGenerating s' = False \<and>
         history s' =
           \<lparr>item_id = toString 5, item_originalImage = img,
            item_generatedAvatar = ''data:image/png;base64,QUJD'',
            item_style = style sample_state, item_timestamp = 6\<rparr>
           # take 19 (history (ticks 1000 [1100, 1200]
                               (first_update sample_dispatch sample_state))) \<and>
         length (history s') =
           min (length (history (ticks 1000 [1100, 1200]
                                   (first_update sample_dispatch sample_state))) + 1) 20))"
  using sample_handleGenerate
    generate_success [OF sample_handleGenerate, where startTime = 1000 and nows = "[1100, 1200]"
      and P = "''data:image/png;base64,QUJD''" and now_id = 5 and now_ts = 6
      and prev = "ticks 1000 [1100, 1200] (first_update sample_dispatch sample_state)"]
  by simp

text \<open>
  Claim C3, as stated, fails when the user acts on the history while the request is in
  flight; neither the history entries nor the clear button are disabled then. After one
  successful generation a second one is dispatched, which clears \<^verbatim>\<open>generatedAvatar\<close>.
  If the history entry is selected before the request fails, \<^verbatim>\<open>generatedAvatar\<close> is
  that entry's avatar after the failure, not null; if the entry is deleted instead, the
  history after the failure is empty, not the one before the dispatch.
\<close>

theorem failure_after_history_events:
  "history (app (run one_success empty_store)) = [sample_item 20] \<and>
   isGenerating (app (run (one_success @ [ClickGenerate 2000]) empty_store)) \<and>
   generatedAvatar (app (run (one_success @ [ClickGenerate 2000]) empty_store)) = None \<and>
   generatedAvatar (app (run select_then_fail empty_store))
     = Some ''data:image/png;base64,QUJD'' \<and>
   history (app (run delete_then_fail empty_store)) = [] \<and>
   error (app (run select_then_fail empty_store)) = Some ''Quota exceeded'' \<and>
   isGenerating (app (run select_then_fail empty_store)) = False"
  by code_simp

text \<open>
  Claim C3, amended. When the generation client rejects with an error whose message is
  \<open>m\<close>, the failure update sets \<^verbatim>\<open>isGenerating\<close> to false and \<^verbatim>\<open>error\<close> to the message,
  or to the fixed non-empty fallback when the error has no message or an empty one, and
  changes no other field of the state it is applied to. In the running application: let
  a click dispatch a generation from a reachable state, let any events follow that do not
  settle the request, and let the request then be rejected. Afterwards \<^verbatim>\<open>isGenerating\<close>
  is false, no request is in flight, \<^verbatim>\<open>error\<close> is as above, and \<^verbatim>\<open>generatedAvatar\<close> and
  the history are what they were just before the rejection: \<^verbatim>\<open>generatedAvatar\<close> is null
  if no history entry was selected meanwhile, and the history is the one before the
  dispatch if no entry was deleted and the history was not cleared meanwhile.
\<close>

theorem generate_failure:
  "(handleGenerate state = Some d \<longrightarrow>
      (let s' = on_settled d (Rejected m) prev in
         isGenerating s' = False \<and>
         error s' = Some (case m of None \<Rightarrow> GENERATION_FAILED_MESSAGE
                          | Some M \<Rightarrow> if M = [] then GENERATION_FAILED_MESSAGE else M) \<and>
         s'\<lparr>isGenerating := isGenerating prev, error := error prev\<rparr> = prev)) \<and>
   GENERATION_FAILED_MESSAGE \<noteq> [] \<and>
   (sys = run pre (mount savedHistory JSON_parse) \<and> step (ClickGenerate now) sys \<noteq> sys \<and>
    (\<forall>e\<in>set evs. \<not> settles e) \<longrightarrow>
      (let before = run evs (step (ClickGenerate now) sys);
           sys' = step (Settle (Rejected m)) before in
         isGenerating (app before) \<and>
         isGenerating (app sys') = False \<and> inflight sys' = [] \<and>
         error (app sys') = Some (case m of None \<Rightarrow> GENERATION_FAILED_MESSAGE
                                  | Some M \<Rightarrow> if M = [] then GENERATION_FAILED_MESSAGE else M) \<and>
         generatedAvatar (app sys') = generatedAvatar (app before) \<and>
         history (app sys') = history (app before) \<and>
         ((\<forall>e\<in>set evs. \<not> selects_item e) \<longrightarrow> generatedAvatar (app sys') = None) \<and>
         ((\<forall>e\<in>set evs. \<not> edits_history e) \<longrightarrow> history (app sys') = history (app sys))))"
proof (intro conjI impI)
  assume "handleGenerate state = Some d"
  from handleGenerate_Some [OF this] obtain img where
    d: "d = Dispatch dispatchUpdate (img, style state) (settleUpdate img (style state))"
    by blast
  show "let s' = on_settled d (Rejected m) prev in
         isGenerating s' = False \<and>
         error s' = Some (case m of None \<Rightarrow> GENERATION_FAILED_MESSAGE
                          | Some M \<Rightarrow> if M = [] then GENERATION_FAILED_MESSAGE else M) \<and>
         s'\<lparr>isGenerating := isGenerating prev, error := error prev\<rparr> = prev"
    by (simp add: d Let_def or_else_def split: option.splits)
next
  show "GENERATION_FAILED_MESSAGE \<noteq> []" by (simp add: GENERATION_FAILED_MESSAGE_def)
next
  assume a: "sys = run pre (mount savedHistory JSON_parse) \<and> step (ClickGenerate now) sys \<noteq> sys \<and>
    (\<forall>e\<in>set evs. \<not> settles e)"
  then have sf: "single_flight sys" by (simp add: single_flight_run single_flight_mount)
  from dispatch_step [OF sf] a obtain img where
    s1: "step (ClickGenerate now) sys =
           sys\<lparr>app := dispatchUpdate (app sys), inflight := [(img, style (app sys))],
               timerStart := Some now\<rparr>"
    by blast
  let ?s1 = "step (ClickGenerate now) sys"
  have g1: "isGenerating (app ?s1)" and a1: "generatedAvatar (app ?s1) = None"
    and h1: "history (app ?s1) = history (app sys)"
    and i1: "inflight ?s1 = [(img, style (app sys))]"
    by (simp_all add: s1 dispatchUpdate_def)
  from a have ns: "\<forall>e\<in>set evs. \<not> settles e" by simp
  note r = generating_run [OF g1 ns]
  let ?b = "run evs ?s1"
  from r have gb: "isGenerating (app ?b)" and ib: "inflight ?b = [(img, style (app sys))]"
    using i1 by simp_all
  have st: "step (Settle (Rejected m)) ?b =
      ?b\<lparr>app := settleUpdate img (style (app sys)) (Rejected m) (app ?b), inflight := []\<rparr>"
    using gb ib by (simp add: step_generating)
  show "let before = run evs (step (ClickGenerate now) sys);
           sys' = step (Settle (Rejected m)) before in
         isGenerating (app before) \<and>
         isGenerating (app sys') = False \<and> inflight sys' = [] \<and>
         error (app sys') = Some (case m of None \<Rightarrow> GENERATION_FAILED_MESSAGE
                                  | Some M \<Rightarrow> if M = [] then GENERATION_FAILED_MESSAGE else M) \<and>
         generatedAvatar (app sys') = generatedAvatar (app before) \<and>
         history (app sys') = history (app before) \<and>
         ((\<forall>e\<in>set evs. \<not> selects_item e) \<longrightarrow> generatedAvatar (app sys') = None) \<and>
         ((\<forall>e\<in>set evs. \<not> edits_history e) \<longrightarrow> history (app sys') = history (app sys))"
    using r gb a1 h1 by (simp add: Let_def st or_else_def split: option.splits)
qed

theorem generate_failure_witness:
  "handleGenerate sample_state = Some sample_dispatch \<and>
   error (on_settled sample_dispatch (Rejected None) finished_state)
     = Some GENERATION_FAILED_MESSAGE \<and>
   step (ClickGenerate 1000) (run upload_session empty_store) = generating_system \<and>
   isGenerating (app (run while_generating generating_system)) \<and>
   isGenerating
     (app (step (Settle (Rejected (Some ''Quota exceeded'')))
            (run while_generating generating_system))) = False \<and>
   error
     (app (step (Settle (Rejected (Some ''Quota exceeded'')))
            (run while_generating generating_system))) = Some ''Quota exceeded'' \<and>
   generatedAvatar
     (app (step (Settle (Rejected (Some ''Quota exceeded'')))
            (run while_generating generating_system))) = None \<and>
   history
     (app (step (Settle (Rejected (Some ''Quota exceeded'')))
            (run while_generating generating_system))) = []"
proof -
  note th = generate_failure [where state = sample_state and d = sample_dispatch and m = None
      and prev = finished_state and sys = "run upload_session empty_store"
      and pre = upload_session and savedHistory = None and JSON_parse = "\<lambda>t. None"
      and now = 1000 and evs = while_generating]
  note th2 = generate_failure [where state = sample_state and d = sample_dispatch
      and m = "Some ''Quota exceeded''"
      and prev = finished_state and sys = "run upload_session empty_store"
      and pre = upload_session and savedHistory = None and JSON_parse = "\<lambda>t. None"
      and now = 1000 and evs = while_generating]
  have h: "history (app (run upload_session empty_store)) = []"
    by (simp add: upload_session_run sample_state_def initialState_def)
  have b: "generatedAvatar (app (run while_generating generating_system)) = None"
    "history (app (run while_generating generating_system)) = []"
    by code_simp+
  show ?thesis
    using th th2 sample_handleGenerate upload_session_dispatches while_generating_events h b
    by (simp add: Let_def empty_store_def upload_session_dispatch [unfolded empty_store_def])
qed

section \<open>The history\<close>

text \<open>The text of one entry, as the save effect writes it.\<close>

lemma json_item_sample:
  \<open>json_item (sample_item 20) =
     ''{"id":"20","originalImage":"data:image/jpeg;base64,AAAA","generatedAvatar":"data:image/png;base64,QUJD","style":"''
     @ AvatarStyle_text ANIME @ ''","timestamp":20}''\<close>
  by code_simp

text \<open>
  Claim C4, as stated, fails at startup: the load effect installs the parsed list as it
  is, so the persisted JSON text of 21 entries gives a state whose history has 21 entries.
\<close>

theorem load_exceeds_cap:
  "length (history (app (mount (Some stored_text) parse_stored))) = 21"
  by (simp add: mount_def loadHistory_def progressReset_def parse_stored_def stored_21_def
      stored_text_def JSON_stringify_def)

lemma take_19_full:
  "length xs = 20 \<Longrightarrow> take 19 xs = butlast xs"
  by (simp add: butlast_conv_take)

text \<open>
  Claim C4, amended. If the history loaded at startup has at most 20 entries, then the
  history has at most 20 entries in every state the application reaches, whatever the
  events: appends on success, deletions, clearing. The load itself installs the persisted
  list unchanged, whatever its length: the history after mounting is empty when nothing is
  persisted or the text does not parse, and is the parsed list otherwise. The append itself
  never leaves more than 20 entries, and prepending to a history of exactly 20 entries
  evicts exactly the last, oldest one.
\<close>

theorem history_cap:
  "(length (history (app (mount savedHistory JSON_parse))) \<le> 20 \<longrightarrow>
      length (history (app (run evs (mount savedHistory JSON_parse)))) \<le> 20) \<and>
   history (app (mount None JSON_parse)) = [] \<and>
   (saved \<noteq> [] \<and> JSON_parse saved = Some parsed \<longrightarrow>
      history (app (mount (Some saved) JSON_parse)) = parsed) \<and>
   (JSON_parse saved = None \<longrightarrow> history (app (mount (Some saved) JSON_parse)) = []) \<and>
   length (history (settleUpdate img sty (Resolved P now_id now_ts) prev)) \<le> 20 \<and>
   (length (history prev) = 20 \<longrightarrow>
      history (settleUpdate img sty (Resolved P now_id now_ts) prev)
        = newHistoryItem img sty P now_id now_ts # butlast (history prev))"
  by (auto simp: history_run_le take_19_full mount_def loadHistory_def progressReset_def
      initialState_def)

lemma length_full_history: "length full_history = 20"
  by (simp add: full_history_def)

lemma full_store_eq:
  "full_store =
     \<lparr>app = initialState\<lparr>history := full_history\<rparr>, inflight = [], timerStart = None\<rparr>"
  by (simp add: full_store_def mount_def loadHistory_def progressReset_def parse_full_def
      JSON_stringify_def initialState_def)

lemma full_session:
  "history (app (run one_success full_store)) = sample_item 20 # butlast full_history \<and>
   last (history (app (run one_success full_store))) = sample_item 1 \<and>
   length (history (app (run delete_one full_store))) = 19 \<and>
   length (history (app (run second_success full_store))) = 20 \<and>
   history (app (run clear_all full_store)) = []"
  unfolding full_store_eq by code_simp

theorem history_cap_witness:
  "JSON_stringify full_history \<noteq> [] \<and>
   parse_full (JSON_stringify full_history) = Some full_history \<and>
   history (app full_store) = full_history \<and>
   length (history (app full_store)) = 20 \<and>
   history (app (run one_success full_store)) = sample_item 20 # butlast full_history \<and>
   last (history (app (run one_success full_store))) = sample_item 1 \<and>
   length (history (app (run one_success full_store))) \<le> 20 \<and>
   length (history (app (run delete_one full_store))) = 19 \<and>
   length (history (app (run second_success full_store))) = 20 \<and>
   history (app (run clear_all full_store)) = []"
proof -
  have a: "JSON_stringify full_history \<noteq> []" by (simp add: JSON_stringify_def)
  have b: "parse_full (JSON_stringify full_history) = Some full_history"
    by (simp add: parse_full_def)
  have c: "length (history (app full_store)) = 20"
    by (simp add: full_store_eq length_full_history)
  note th = history_cap [where savedHistory = "Some (JSON_stringify full_history)"
      and JSON_parse = parse_full and evs = one_success
      and saved = "JSON_stringify full_history" and parsed = full_history
      and img = sample_photo and sty = ANIME and P = "''data:image/png;base64,QUJD''"
      and now_id = 20 and now_ts = 20 and prev = "app full_store", folded full_store_def]
  from c have d: "length (history (app full_store)) \<le> 20" by simp
  show ?thesis
    using a b c d th full_session by blast
qed

text \<open>
  Claim C6, as stated, fails for a history in which two entries carry the same id: the
  deletion removes both of them, not exactly one.
\<close>

theorem delete_removes_both_twins:
  "map item_id twin_history = [''7'', ''3'', ''7''] \<and>
   history (handleDeleteHistoryItem ''7'' (initialState\<lparr>history := twin_history\<rparr>))
     = [sample_item 3]"
  by (simp add: handleDeleteHistoryItem_def twin_history_def sample_item_def newHistoryItem_def
      toString_def digits_of.simps digit_char_def)

lemma filter_unique:
  "distinct (map f xs) \<Longrightarrow> a \<in> f ` set xs \<Longrightarrow>
   \<exists>us y vs. xs = us @ y # vs \<and> f y = a \<and> filter (\<lambda>x. f x \<noteq> a) xs = us @ vs"
proof (induction xs)
  case Nil
  then show ?case by simp
next
  case (Cons x xs)
  show ?case
  proof (cases "f x = a")
    case True
    then have "a \<notin> f ` set xs" using Cons.prems(1) by auto
    then have "filter (\<lambda>x. f x \<noteq> a) xs = xs"
      by (auto simp: filter_id_conv)
    then have "x # xs = [] @ x # xs \<and> f x = a \<and> filter (\<lambda>x. f x \<noteq> a) (x # xs) = [] @ xs"
      using True by simp
    then show ?thesis by blast
  next
    case False
    then have "a \<in> f ` set xs" using Cons.prems(2) by auto
    moreover have "distinct (map f xs)" using Cons.prems(1) by simp
    ultimately obtain us y vs where
      "xs = us @ y # vs" "f y = a" "filter (\<lambda>x. f x \<noteq> a) xs = us @ vs"
      using Cons.IH by blast
    then have "x # xs = (x # us) @ y # vs \<and> f y = a \<and>
        filter (\<lambda>x. f x \<noteq> a) (x # xs) = (x # us) @ vs"
      using False by simp
    then show ?thesis by blast
  qed
qed

text \<open>
  Claim C6, amended. For every history and every id, \<^verbatim>\<open>handleDeleteHistoryItem\<close> changes
  the history only; what is left is a subsequence of the old history (the relative order
  of the remaining entries is unchanged) that holds exactly the entries with another id,
  so every entry with the given id is removed; the history is unchanged when no entry has
  the id; and when the ids of the history are pairwise distinct and one entry has the id,
  exactly that one entry is removed.
\<close>

theorem delete_history_item:
  "(let s' = handleDeleteHistoryItem i prev in
      s'\<lparr>history := history prev\<rparr> = prev \<and>
      subseq (history s') (history prev) \<and>
      (\<forall>item. item \<in> set (history s') \<longleftrightarrow> item \<in> set (history prev) \<and> item_id item \<noteq> i) \<and>
      (i \<notin> item_id ` set (history prev) \<longrightarrow> history s' = history prev) \<and>
      (distinct (map item_id (history prev)) \<and> i \<in> item_id ` set (history prev) \<longrightarrow>
         (\<exists>us y vs. history prev = us @ y # vs \<and> item_id y = i \<and> history s' = us @ vs)))"
proof -
  have "filter (\<lambda>item. item_id item \<noteq> i) (history prev) = history prev"
    if "i \<notin> item_id ` set (history prev)"
    using that by (auto simp: filter_id_conv)
  then show ?thesis
    using filter_unique [of item_id "history prev" i]
    by (auto simp: handleDeleteHistoryItem_def Let_def)
qed

lemma short_history_ids: "map item_id short_history = [''7'', ''3'', ''1'']"
  by (simp add: short_history_def sample_item_def newHistoryItem_def toString_def
      digits_of.simps digit_char_def)

theorem delete_history_item_witness:
  "distinct (map item_id short_history) \<and>
   ''3'' \<in> item_id ` set short_history \<and>
   ''9'' \<notin> item_id ` set short_history \<and>
   history (handleDeleteHistoryItem ''3'' (initialState\<lparr>history := short_history\<rparr>))
     = [sample_item 7, sample_item 1] \<and>
   history (handleDeleteHistoryItem ''9'' (initialState\<lparr>history := short_history\<rparr>))
     = short_history \<and>
   subseq [sample_item 7, sample_item 1] short_history"
proof -
  have ids: "item_id ` set short_history = {''7'', ''3'', ''1''}"
    using short_history_ids by (metis list.set_map list.simps(15) empty_set)
  have a: "distinct (map item_id short_history)"
    by (simp add: short_history_ids)
  have b: "''3'' \<in> item_id ` set short_history" and c: "''9'' \<notin> item_id ` set short_history"
    by (simp_all add: ids)
  have d: "history (handleDeleteHistoryItem ''3'' (initialState\<lparr>history := short_history\<rparr>))
      = [sample_item 7, sample_item 1]"
    by (simp add: handleDeleteHistoryItem_def short_history_def sample_item_def
        newHistoryItem_def toString_def digits_of.simps digit_char_def)
  show ?thesis
    using a b c d
      delete_history_item [of "''3''" "initialState\<lparr>history := short_history\<rparr>"]
      delete_history_item [of "''9''" "initialState\<lparr>history := short_history\<rparr>"]
    by (simp add: Let_def)
qed

section \<open>The progress fraction\<close>






section \<open>Ingesting a file\<close>

text \<open>
  Claim C7. For every file whose declared media type does not start with
  \<^verbatim>\<open>image/\<close>, \<^verbatim>\<open>processFile\<close> leaves \<^verbatim>\<open>originalImage\<close>, \<^verbatim>\<open>generatedAvatar\<close> and
  every other field except \<^verbatim>\<open>error\<close> unchanged, and sets \<^verbatim>\<open>error\<close> to a non-empty
  message; the file picker passes the file to \<^verbatim>\<open>processFile\<close> and does nothing else.
\<close>

theorem processFile_rejects_non_image:
  assumes "\<not> startsWith (file_type file) ''image/''"
  shows "(let s' = processFile file result prev in
            originalImage s' = originalImage prev \<and>
            generatedAvatar s' = generatedAvatar prev \<and>
            s'\<lparr>error := error prev\<rparr> = prev \<and>
            truthy (error s') \<and>
            error s' = Some INVALID_FILE_MESSAGE) \<and>
         handleFileUpload (Some file) result prev = processFile file result prev"
  using assms
  by (simp add: processFile_def handleFileUpload_def truthy_def INVALID_FILE_MESSAGE_def Let_def)

theorem processFile_rejects_non_image_witness:
  "\<not> startsWith (file_type pdf_file) ''image/'' \<and>
   originalImage (processFile pdf_file (Some ''JVBERi0='') finished_state) = Some sample_photo \<and>
   generatedAvatar (processFile pdf_file (Some ''JVBERi0='') finished_state)
     = Some ''data:image/png;base64,QUJD'' \<and>
   (processFile pdf_file (Some ''JVBERi0='') finished_state)\<lparr>error := None\<rparr> = finished_state \<and>
   error (processFile pdf_file (Some ''JVBERi0='') finished_state) = Some INVALID_FILE_MESSAGE"
proof -
  have h: "\<not> startsWith (file_type pdf_file) ''image/''"
    by (simp add: startsWith_def pdf_file_def)
  show ?thesis
    using h processFile_rejects_non_image [OF h, of "Some ''JVBERi0=''" finished_state]
    by (simp add: Let_def finished_state_def sample_state_def initialState_def)
qed

section \<open>Rounding to double precision\<close>


lemma round_half_even_le: "q \<le> of_int n \<Longrightarrow> round_half_even q \<le> n"
proof -
  assume a: "q \<le> of_int n"
  show ?thesis
  proof (cases "q = of_int n")
    case True
    then show ?thesis by (simp add: round_half_even_def Let_def)
  next
    case False
    with a have "q < of_int n" by simp
    then have "\<lfloor>q\<rfloor> < n" by (simp add: floor_less_iff)
    then show ?thesis by (auto simp: round_half_even_def Let_def)
  qed
qed


lemma halvings_le: "x < 2 * 2 ^ k \<Longrightarrow> k \<le> n \<Longrightarrow> halvings n x \<le> k"
proof (induction n x arbitrary: k rule: halvings.induct)
  case (1 n x)
  show ?case
  proof (cases "n = 0 \<or> x < 2")
    case True
    then show ?thesis by (simp add: halvings.simps [of n x])
  next
    case False
    then have k: "k \<noteq> 0" using "1.prems" by (cases k) auto
    then obtain k' where k': "k = Suc k'" by (cases k) auto
    have "x / 2 < 2 * 2 ^ k'" using "1.prems"(1) k' by simp
    moreover have "k' \<le> n - 1" using "1.prems"(2) k' by simp
    ultimately have "halvings (n - 1) (x / 2) \<le> k'" using "1.IH" False by blast
    then show ?thesis using False k' by (simp add: halvings.simps [of n x])
  qed
qed

lemma ulp_shape:
  assumes "0 < x" and "x < 8"
  shows "\<exists>j\<ge>50. ulp x = 1 / 2 ^ j"
proof (cases "1 \<le> x")
  case True
  have "halvings 1023 x \<le> 2" using halvings_le [of x 2 1023] assms(2) by simp
  then obtain h where h: "halvings 1023 x = h" "h \<le> 2" by blast
  from h(2) consider "h = 0" | "h = 1" | "h = 2" by linarith
  then show ?thesis
  proof cases
    case 1
    then have "ulp x = 1 / 2 ^ 52" using True h(1) by (simp add: ulp_def)
    then show ?thesis by (intro exI [of _ 52]) simp
  next
    case 2
    then have "ulp x = 1 / 2 ^ 51" using True h(1) by (simp add: ulp_def)
    then show ?thesis by (intro exI [of _ 51]) simp
  next
    case 3
    then have "ulp x = 1 / 2 ^ 50" using True h(1) by (simp add: ulp_def)
    then show ?thesis by (intro exI [of _ 50]) simp
  qed
next
  case False
  then have "ulp x = 1 / 2 ^ (doublings 1022 x + 52)" by (simp add: ulp_def power_add)
  then show ?thesis by (intro exI [of _ "doublings 1022 x + 52"]) simp
qed


lemma round_double_le:
  assumes "0 < x" and "x < 8" and "x \<le> of_int k"
  shows "round_double x \<le> of_int k"
proof -
  from ulp_shape [OF assms(1,2)] obtain j where j: "ulp x = 1 / 2 ^ j" by blast
  have "x * 2 ^ j \<le> of_int (k * 2 ^ j)" using assms(3) by simp
  then have "round_half_even (x * 2 ^ j) \<le> k * 2 ^ j" by (rule round_half_even_le)
  then have "(of_int (round_half_even (x * 2 ^ j)) :: rat) \<le> of_int (k * 2 ^ j)"
    by (simp only: of_int_le_iff)
  then have "(of_int (round_half_even (x * 2 ^ j)) :: rat) \<le> of_int k * 2 ^ j" by simp
  then have "(of_int (round_half_even (x * 2 ^ j)) :: rat) / 2 ^ j \<le> of_int k"
    by (simp add: pos_divide_le_eq)
  then show ?thesis using assms(1) by (simp add: round_double_def j)
qed








section \<open>Selecting a style\<close>












end
